theory Spec2Isabelle
  imports Complex_Main
begin

section \<open>Values and failures\<close>

text \<open>
  The notebooks compute with Python and NumPy floats. The embedding idealises a finite
  float as a real number and keeps the one non-finite value the notebooks produce on
  purpose, \<^verbatim>\<open>-np.inf\<close>, as a constructor of its own. Rounding and overflow are not
  modelled.
\<close>

datatype pyfloat = NegInf | Fin real

text \<open>
  Two ways of leaving the real-number model:
  \<^item> \<open>ValueError\<close>: the exception Python raises when a tuple unpacking such as
    \<^verbatim>\<open>A, B, P, t0 = params\<close> meets a sequence of another length, and the one NumPy raises
    for shapes that cannot be broadcast, for a negative array size, for a negative
    scale of the normal distribution and for a seed outside \<open>[0, 2^32 - 1]\<close>;
  \<^item> \<open>NotReal\<close>: a division by zero. NumPy answers with an infinity or a NaN (and a
    warning), plain Python floats raise ZeroDivisionError; in both cases no real number
    results, where HOL's own division would return \<open>0\<close>.
\<close>

datatype failure = ValueError | NotReal

definition fdiv :: "real \<Rightarrow> real \<Rightarrow> failure + real" where
  "fdiv x d = (if d = 0 then Inl NotReal else Inr (x / d))"

text \<open>An operation applied to every element of an array, in order; the first failure wins.\<close>

fun elementwise :: "('a \<Rightarrow> failure + 'b) \<Rightarrow> 'a list \<Rightarrow> failure + 'b list" where
  "elementwise f [] = Inr []"
| "elementwise f (x # xs) =
     (case f x of
        Inl e \<Rightarrow> Inl e
      | Inr v \<Rightarrow> (case elementwise f xs of Inl e \<Rightarrow> Inl e | Inr vs \<Rightarrow> Inr (v # vs)))"

text \<open>\<^verbatim>\<open>np.isfinite\<close> and float addition on the values of the model.\<close>

fun isfinite :: "pyfloat \<Rightarrow> bool" where
  "isfinite NegInf = False"
| "isfinite (Fin _) = True"

fun fadd :: "pyfloat \<Rightarrow> pyfloat \<Rightarrow> pyfloat" where
  "fadd (Fin a) (Fin b) = Fin (a + b)"
| "fadd _ _ = NegInf"

section \<open>Model functions\<close>

text \<open>
  \<^verbatim>\<open>
  def sine_model(params, t):
      A, B, P, t0 = params
      return A * np.sin((t / P + t0) * 2 * np.pi) + B
  \<close>
  The function is called with a single time and with an array of times. With a single
  time every operation is scalar.
\<close>

fun sine_model :: "real list \<Rightarrow> real \<Rightarrow> failure + real" where
  "sine_model [A, B, P, t0] t =
     (case fdiv t P of
        Inl e \<Rightarrow> Inl e
      | Inr q \<Rightarrow> Inr (A * sin ((q + t0) * 2 * pi) + B))"
| "sine_model _ t = Inl ValueError"

text \<open>
  With an array of times every operator of the expression is a NumPy operation on a whole
  array: the division makes an array, the addition of \<open>t0\<close> makes the next one, and so on.
\<close>

fun sine_model_vec :: "real list \<Rightarrow> real list \<Rightarrow> failure + real list" where
  "sine_model_vec [A, B, P, t0] ts =
     (case elementwise (\<lambda>x. fdiv x P) ts of
        Inl e \<Rightarrow> Inl e
      | Inr q \<Rightarrow>
          Inr (map (\<lambda>v. v + B)
                (map (\<lambda>v. A * v)
                  (map sin
                    (map (\<lambda>v. v * pi)
                      (map (\<lambda>v. v * 2)
                        (map (\<lambda>v. v + t0) q)))))))"
| "sine_model_vec _ ts = Inl ValueError"

text \<open>The model-selection notebook has the same function under the name \<^verbatim>\<open>model_A\<close>.\<close>

fun model_A :: "real list \<Rightarrow> real \<Rightarrow> failure + real" where
  "model_A [A, B, P, t0] t =
     (case fdiv t P of
        Inl e \<Rightarrow> Inl e
      | Inr q \<Rightarrow> Inr (A * sin ((q + t0) * 2 * pi) + B))"
| "model_A _ t = Inl ValueError"

fun model_A_vec :: "real list \<Rightarrow> real list \<Rightarrow> failure + real list" where
  "model_A_vec [A, B, P, t0] ts =
     (case elementwise (\<lambda>x. fdiv x P) ts of
        Inl e \<Rightarrow> Inl e
      | Inr q \<Rightarrow>
          Inr (map (\<lambda>v. v + B)
                (map (\<lambda>v. A * v)
                  (map sin
                    (map (\<lambda>v. v * pi)
                      (map (\<lambda>v. v * 2)
                        (map (\<lambda>v. v + t0) q)))))))"
| "model_A_vec _ ts = Inl ValueError"

text \<open>
  \<^verbatim>\<open>
  def model_B(params, t):
      B, = params
      return 0 * t + B
  \<close>
\<close>

fun model_B :: "real list \<Rightarrow> real \<Rightarrow> failure + real" where
  "model_B [B] t = Inr (0 * t + B)"
| "model_B _ t = Inl ValueError"

fun model_B_vec :: "real list \<Rightarrow> real list \<Rightarrow> failure + real list" where
  "model_B_vec [B] ts = Inr (map (\<lambda>v. v + B) (map (\<lambda>v. 0 * v) ts))"
| "model_B_vec _ ts = Inl ValueError"

section \<open>Priors\<close>

text \<open>
  \<^verbatim>\<open>
  def log_prior(params):
      A, B, P, t0 = params
      if np.abs(B)>10.0 or A<0.1 or A>100.0 or P<0.3 or P>10.0 or t0<0.0 or t0>1.0:
          return -np.inf
      return 0.0
  \<close>
\<close>

fun log_prior :: "real list \<Rightarrow> failure + pyfloat" where
  "log_prior [A, B, P, t0] =
     (if \<bar>B\<bar> > 10.0 \<or> A < 0.1 \<or> A > 100.0 \<or> P < 0.3 \<or> P > 10.0 \<or> t0 < 0.0 \<or> t0 > 1.0
      then Inr NegInf
      else Inr (Fin 0.0))"
| "log_prior _ = Inl ValueError"

fun log_prior_A :: "real list \<Rightarrow> failure + pyfloat" where
  "log_prior_A [A, B, P, t0] =
     (if \<bar>B\<bar> > 10.0 \<or> A < 0.1 \<or> A > 100.0 \<or> P < 0.3 \<or> P > 10.0 \<or> t0 < 0.0 \<or> t0 > 1.0
      then Inr NegInf
      else Inr (Fin 0.0))"
| "log_prior_A _ = Inl ValueError"

fun log_prior_B :: "real list \<Rightarrow> failure + pyfloat" where
  "log_prior_B [B] = (if \<bar>B\<bar> > 10.0 then Inr NegInf else Inr (Fin 0.0))"
| "log_prior_B _ = Inl ValueError"

section \<open>Observation set and likelihoods\<close>

text \<open>
  The likelihoods read three notebook globals: the array of observation times \<^verbatim>\<open>t\<close>, the
  array of measured values \<^verbatim>\<open>y\<close> and the noise level \<^verbatim>\<open>yerr\<close>. They are passed
  explicitly here, as one record.
\<close>

record observations =
  obs_t :: "real list"
  obs_y :: "real list"
  obs_yerr :: real

text \<open>
  Subtraction of two one-dimensional arrays under NumPy's broadcasting: equal lengths pair
  up, an array of length one is stretched, anything else raises.
\<close>

definition np_sub :: "real list \<Rightarrow> real list \<Rightarrow> failure + real list" where
  "np_sub xs ys =
     (if length xs = length ys then Inr (map2 (\<lambda>a b. a - b) xs ys)
      else if length xs = 1 then Inr (map (\<lambda>b. hd xs - b) ys)
      else if length ys = 1 then Inr (map (\<lambda>a. a - hd ys) xs)
      else Inl ValueError)"

text \<open>
  The part the three likelihoods share, from the model's prediction on:
  \<^verbatim>\<open>loglike = -0.5 * (((y_model - y) / yerr)**2).sum()\<close>
\<close>

definition gauss_loglike :: "observations \<Rightarrow> real list \<Rightarrow> failure + pyfloat" where
  "gauss_loglike obs y_model =
     (case np_sub y_model (obs_y obs) of
        Inl e \<Rightarrow> Inl e
      | Inr r \<Rightarrow>
          (case elementwise (\<lambda>v. fdiv v (obs_yerr obs)) r of
             Inl e \<Rightarrow> Inl e
           | Inr z \<Rightarrow> Inr (Fin (- 0.5 * sum_list (map (\<lambda>v. v ^ 2) z)))))"

text \<open>
  \<^verbatim>\<open>
  def log_like(params):
      y_model = sine_model(params, t)
      loglike = -0.5 * (((y_model - y) / yerr)**2).sum()
      return loglike
  \<close>
  and likewise \<^verbatim>\<open>log_like_A\<close> with \<^verbatim>\<open>model_A\<close> and \<^verbatim>\<open>log_like_B\<close> with \<^verbatim>\<open>model_B\<close>.
\<close>

definition log_like :: "observations \<Rightarrow> real list \<Rightarrow> failure + pyfloat" where
  "log_like obs params =
     (case sine_model_vec params (obs_t obs) of
        Inl e \<Rightarrow> Inl e
      | Inr y_model \<Rightarrow> gauss_loglike obs y_model)"

definition log_like_A :: "observations \<Rightarrow> real list \<Rightarrow> failure + pyfloat" where
  "log_like_A obs params =
     (case model_A_vec params (obs_t obs) of
        Inl e \<Rightarrow> Inl e
      | Inr y_model \<Rightarrow> gauss_loglike obs y_model)"

definition log_like_B :: "observations \<Rightarrow> real list \<Rightarrow> failure + pyfloat" where
  "log_like_B obs params =
     (case model_B_vec params (obs_t obs) of
        Inl e \<Rightarrow> Inl e
      | Inr y_model \<Rightarrow> gauss_loglike obs y_model)"

section \<open>Posterior\<close>

text \<open>
  \<^verbatim>\<open>
  def log_post(params):
      lp = log_prior(params)
      if ~np.isfinite(lp):
          return -np.inf
      return lp + log_like(params)
  \<close>
\<close>

definition log_post :: "observations \<Rightarrow> real list \<Rightarrow> failure + pyfloat" where
  "log_post obs params =
     (case log_prior params of
        Inl e \<Rightarrow> Inl e
      | Inr lp \<Rightarrow>
          if \<not> isfinite lp then Inr NegInf
          else (case log_like obs params of
                  Inl e \<Rightarrow> Inl e
                | Inr ll \<Rightarrow> Inr (fadd lp ll)))"

section \<open>Data generation\<close>

text \<open>
  The data cells draw from NumPy's global random generator, which is a library and not
  part of the notebooks. The library enters as a parameter: the state a seed initialises,
  and one standard uniform and one standard normal draw, each a function from the
  generator's state to a sample and the next state.
\<close>

record 'st rng =
  seeded :: "int \<Rightarrow> 'st"
  uniform01 :: "'st \<Rightarrow> real \<times> 'st"
  gauss01 :: "'st \<Rightarrow> real \<times> 'st"

text \<open>\<open>n\<close> draws in a row, threading the state.\<close>

fun draws :: "('st \<Rightarrow> real \<times> 'st) \<Rightarrow> nat \<Rightarrow> 'st \<Rightarrow> real list \<times> 'st" where
  "draws d 0 s = ([], s)"
| "draws d (Suc n) s =
     (case d s of (x, s') \<Rightarrow> (case draws d n s' of (xs, s'') \<Rightarrow> (x # xs, s'')))"

text \<open>
  \<^verbatim>\<open>np.random.seed(seed)\<close> with an integer seed: a seed outside \<open>[0, 2^32 - 1]\<close> raises
  ValueError and leaves no state to draw from; a seed inside replaces the global state,
  whatever it was.
\<close>

definition np_seed :: "'st rng \<Rightarrow> int \<Rightarrow> 'st \<Rightarrow> failure + 'st" where
  "np_seed L seed s =
     (if seed < 0 \<or> seed > 2 ^ 32 - 1 then Inl ValueError else Inr (seeded L seed))"

text \<open>
  \<^verbatim>\<open>np.random.uniform(low, high, size=n)\<close>: an array of \<open>n\<close> samples; \<open>n = 0\<close> gives the empty
  array, a negative \<open>n\<close> raises ValueError.
\<close>

definition np_uniform ::
  "'st rng \<Rightarrow> real \<Rightarrow> real \<Rightarrow> int \<Rightarrow> 'st \<Rightarrow> failure + (real list \<times> 'st)" where
  "np_uniform L low high n s =
     (if n < 0 then Inl ValueError
      else (case draws (uniform01 L) (nat n) s of
              (us, s') \<Rightarrow> Inr (map (\<lambda>u. low + (high - low) * u) us, s')))"

text \<open>
  \<^verbatim>\<open>np.random.normal(loc, scale)\<close> with an array \<open>loc\<close>: one sample for every element of
  \<open>loc\<close>; a negative \<open>scale\<close> raises ValueError.
\<close>

definition np_normal ::
  "'st rng \<Rightarrow> real list \<Rightarrow> real \<Rightarrow> 'st \<Rightarrow> failure + (real list \<times> 'st)" where
  "np_normal L loc scale s =
     (if scale < 0 then Inl ValueError
      else (case draws (gauss01 L) (length loc) s of
              (gs, s') \<Rightarrow> Inr (map2 (\<lambda>m g. m + scale * g) loc gs, s')))"

text \<open>
  The data cell, with its constants as arguments:
  \<^verbatim>\<open>
  np.random.seed(42)
  n_data = 50
  t = np.random.uniform(0, 5, size=n_data)
  params_true = [1.0, 1.0, 3.0, 0.0]
  yerr = 1.0
  y = np.random.normal(model_A(params_true, t), yerr)
  \<close>
  The parameter-inference notebook does the same in two consecutive cells, with
  \<^verbatim>\<open>sine_model\<close> and \<^verbatim>\<open>params_true = [4.3, 1.0, 3.1, 0.4]\<close>. The last argument is the state
  of the global generator before the cell runs; the result is the observation set and the
  state the cell leaves behind.
\<close>

definition data_generator ::
  "'st rng \<Rightarrow> (real list \<Rightarrow> real list \<Rightarrow> failure + real list) \<Rightarrow>
   int \<Rightarrow> int \<Rightarrow> real \<Rightarrow> real \<Rightarrow> real list \<Rightarrow> real \<Rightarrow> 'st \<Rightarrow>
   failure + (observations \<times> 'st)" where
  "data_generator L model seed n_data low high params_true yerr s0 =
     (case np_seed L seed s0 of
        Inl e \<Rightarrow> Inl e
      | Inr s1 \<Rightarrow>
          (case np_uniform L low high n_data s1 of
             Inl e \<Rightarrow> Inl e
           | Inr (t, s2) \<Rightarrow>
               (case model params_true t of
                  Inl e \<Rightarrow> Inl e
                | Inr m \<Rightarrow>
                    (case np_normal L m yerr s2 of
                       Inl e \<Rightarrow> Inl e
                     | Inr (y, s3) \<Rightarrow>
                         Inr (\<lparr>obs_t = t, obs_y = y, obs_yerr = yerr\<rparr>, s3)))))"

text \<open>The two notebooks' cells.\<close>

definition arianna_data :: "'st rng \<Rightarrow> 'st \<Rightarrow> failure + (observations \<times> 'st)" where
  "arianna_data L s0 = data_generator L model_A_vec 42 50 0 5 [1.0, 1.0, 3.0, 0.0] 1.0 s0"

definition zeus_data :: "'st rng \<Rightarrow> 'st \<Rightarrow> failure + (observations \<times> 'st)" where
  "zeus_data L s0 = data_generator L sine_model_vec 42 50 0 5 [4.3, 1.0, 3.1, 0.4] 1.0 s0"

text \<open>
  A small generator to run the cells on: a linear congruential step on a natural number,
  the uniform sample scaled into the unit interval, the normal one centred.
\<close>

definition lcg_next :: "nat \<Rightarrow> nat" where
  "lcg_next s = (21 * s + 7) mod 100"

definition lcg_uniform :: "nat \<Rightarrow> real \<times> nat" where
  "lcg_uniform s = (real (lcg_next s) / 100, lcg_next s)"

definition lcg_gauss :: "nat \<Rightarrow> real \<times> nat" where
  "lcg_gauss s = (real (lcg_next s) / 100 - 1 / 2, lcg_next s)"

definition lcg_seeded :: "int \<Rightarrow> nat" where
  "lcg_seeded seed = nat \<bar>seed\<bar> mod 100"

definition lcg :: "nat rng" where
  "lcg = \<lparr>seeded = lcg_seeded, uniform01 = lcg_uniform, gauss01 = lcg_gauss\<rparr>"

section \<open>Auxiliary facts\<close>

lemma length_four_shape:
  "length (ps :: 'a list) = 4 \<longleftrightarrow> (\<exists>a b c d. ps = [a, b, c, d])"
  by (auto simp: length_Suc_conv numeral_eq_Suc)

lemma length_one_shape:
  "length (ps :: 'a list) = 1 \<longleftrightarrow> (\<exists>a. ps = [a])"
  by (auto simp: length_Suc_conv)

lemma elementwise_fdiv:
  "d \<noteq> 0 \<Longrightarrow> elementwise (\<lambda>x. fdiv x d) xs = Inr (map (\<lambda>x. x / d) xs)"
  by (induction xs) (simp_all add: fdiv_def)

lemma elementwise_Inr_D:
  "elementwise f xs = Inr ys \<Longrightarrow>
     length ys = length xs \<and> (\<forall>i<length xs. f (xs ! i) = Inr (ys ! i))"
proof (induction xs arbitrary: ys)
  case Nil
  then show ?case by simp
next
  case (Cons x xs)
  from Cons.prems obtain v vs where
    fx: "f x = Inr v" and rest: "elementwise f xs = Inr vs" and ys: "ys = v # vs"
    by (auto split: sum.splits)
  from Cons.IH [OF rest] have
    len: "length vs = length xs" and nth: "\<forall>i<length xs. f (xs ! i) = Inr (vs ! i)"
    by simp_all
  show ?case
    using fx len nth ys by (auto simp: nth_Cons split: nat.splits)
qed

lemma sine_model_vec_elementwise:
  "sine_model_vec [A, B, P, t0] ts = elementwise (sine_model [A, B, P, t0]) ts"
  by (induction ts) (auto split: sum.splits)

lemma model_A_vec_elementwise:
  "model_A_vec [A, B, P, t0] ts = elementwise (model_A [A, B, P, t0]) ts"
  by (induction ts) (auto split: sum.splits)

lemma model_B_vec_elementwise:
  "model_B_vec [B] ts = elementwise (model_B [B]) ts"
  by (induction ts) (auto split: sum.splits)

lemma sum_list_nth_lessThan:
  "sum_list (xs :: real list) = (\<Sum>i<length xs. xs ! i)"
  by (simp add: sum_list_sum_nth lessThan_atLeast0)

lemma gauss_loglike_value:
  assumes "length m = length (obs_y obs)" and "obs_yerr obs \<noteq> 0"
  shows "gauss_loglike obs m =
           Inr (Fin (- 0.5 * (\<Sum>i<length m. ((m ! i - obs_y obs ! i) / obs_yerr obs) ^ 2)))"
proof -
  let ?z = "map (\<lambda>v. v ^ 2) (map (\<lambda>v. v / obs_yerr obs) (map2 (\<lambda>a b. a - b) m (obs_y obs)))"
  have len: "length ?z = length m"
    using assms(1) by simp
  have "gauss_loglike obs m = Inr (Fin (- 0.5 * sum_list ?z))"
    using assms by (simp add: gauss_loglike_def np_sub_def elementwise_fdiv)
  also have "sum_list ?z = (\<Sum>i<length m. ?z ! i)"
    using sum_list_nth_lessThan [of ?z] len by simp
  also have "\<dots> = (\<Sum>i<length m. ((m ! i - obs_y obs ! i) / obs_yerr obs) ^ 2)"
    using assms(1) by (intro sum.cong) simp_all
  finally show ?thesis .
qed

lemma gauss_loglike_nonpos:
  assumes "gauss_loglike obs m = Inr r"
  shows "\<exists>v. v \<le> 0 \<and> r = Fin v"
proof -
  from assms obtain z where r: "r = Fin (- 0.5 * sum_list (map (\<lambda>v. v ^ 2) z))"
    by (auto simp: gauss_loglike_def split: sum.splits)
  have "0 \<le> sum_list (map (\<lambda>v. v ^ 2) (z :: real list))"
    by (rule sum_list_nonneg) auto
  then show ?thesis using r by simp
qed

lemma draws_length: "draws d n s = (xs, s') \<Longrightarrow> length xs = n"
  by (induction n arbitrary: s xs s') (auto split: prod.splits)

lemma np_uniform_ok:
  "0 \<le> n \<Longrightarrow> \<exists>t s'. np_uniform L low high n s = Inr (t, s') \<and> length t = nat n"
  by (auto simp: np_uniform_def split: prod.splits dest: draws_length)

lemma np_normal_ok:
  "0 \<le> scale \<Longrightarrow> \<exists>y s'. np_normal L loc scale s = Inr (y, s') \<and> length y = length loc"
  by (auto simp: np_normal_def split: prod.splits dest: draws_length)

lemma model_vec_ok:
  "P \<noteq> 0 \<Longrightarrow>
     (\<exists>m. sine_model_vec [A, B, P, t0] ts = Inr m \<and> length m = length ts) \<and>
     (\<exists>m. model_A_vec [A, B, P, t0] ts = Inr m \<and> length m = length ts)"
  by (simp add: elementwise_fdiv)

lemma data_generator_negative:
  "n < 0 \<Longrightarrow> data_generator L model seed n low high ps yerr s0 = Inl ValueError"
  by (simp add: data_generator_def np_seed_def np_uniform_def)

lemma data_generator_bad_seed:
  "seed < 0 \<or> 2 ^ 32 \<le> seed \<Longrightarrow>
     data_generator L model seed n low high ps yerr s0 = Inl ValueError"
  by (auto simp: data_generator_def np_seed_def)

lemma data_generator_ok:
  assumes "0 \<le> n" and "0 \<le> yerr"
    and "\<And>ts. \<exists>m. model ps ts = Inr m \<and> length m = length ts"
    and "0 \<le> seed" and "seed < 2 ^ 32"
  shows "\<exists>obs s. data_generator L model seed n low high ps yerr s0 = Inr (obs, s) \<and>
            length (obs_t obs) = nat n \<and> length (obs_y obs) = nat n \<and> obs_yerr obs = yerr"
proof -
  have sd: "np_seed L seed s0 = Inr (seeded L seed)"
    using assms(4,5) by (simp add: np_seed_def)
  obtain t s2 where u: "np_uniform L low high n (seeded L seed) = Inr (t, s2)"
    and lt: "length t = nat n"
    using np_uniform_ok [OF assms(1), of L low high "seeded L seed"] by blast
  obtain m where m: "model ps t = Inr m" and lm: "length m = length t"
    using assms(3) by blast
  obtain y s3 where g: "np_normal L m yerr s2 = Inr (y, s3)" and ly: "length y = length m"
    using np_normal_ok [OF assms(2), of L m s2] by blast
  have "data_generator L model seed n low high ps yerr s0 =
          Inr (\<lparr>obs_t = t, obs_y = y, obs_yerr = yerr\<rparr>, s3)"
    using sd u m g by (simp add: data_generator_def)
  then show ?thesis using lt lm ly by simp
qed

section \<open>The priors reject by value\<close>

text \<open>
  Claim C1. On every parameter vector of four reals, \<open>log_prior\<close> and \<open>log_prior_A\<close> return
  normally: the value is negative infinity when a component lies outside its declared
  interval (\<open>A\<close> in \<open>[0.1, 100]\<close>, \<open>B\<close> in \<open>[-10, 10]\<close>, \<open>P\<close> in \<open>[0.3, 10]\<close>, \<open>t0\<close> in
  \<open>[0, 1]\<close>) and \<open>0.0\<close> otherwise. No failure is raised for a parameter out of bounds. The
  same holds for \<open>log_prior_B\<close> on a vector of one real and the interval \<open>[-10, 10]\<close>.
\<close>

theorem prior_bounds:
  "log_prior [A, B, P, t0] =
     Inr (if 0.1 \<le> A \<and> A \<le> 100.0 \<and> - 10.0 \<le> B \<and> B \<le> 10.0 \<and>
             0.3 \<le> P \<and> P \<le> 10.0 \<and> 0.0 \<le> t0 \<and> t0 \<le> 1.0
          then Fin 0.0 else NegInf) \<and>
   log_prior_A [A, B, P, t0] =
     Inr (if 0.1 \<le> A \<and> A \<le> 100.0 \<and> - 10.0 \<le> B \<and> B \<le> 10.0 \<and>
             0.3 \<le> P \<and> P \<le> 10.0 \<and> 0.0 \<le> t0 \<and> t0 \<le> 1.0
          then Fin 0.0 else NegInf) \<and>
   log_prior_B [B] = Inr (if - 10.0 \<le> B \<and> B \<le> 10.0 then Fin 0.0 else NegInf)"
  by (auto simp: abs_le_iff not_less not_le)

section \<open>Bounds are inclusive\<close>

text \<open>
  Claim C8. A parameter vector whose components all lie within their closed intervals,
  one of them exactly on an endpoint, gets the prior \<open>0.0\<close>, not negative infinity: every
  comparison of the source is strict.
\<close>

theorem prior_boundary_inclusive:
  assumes "0.1 \<le> A" "A \<le> 100.0" "- 10.0 \<le> B" "B \<le> 10.0"
    and "0.3 \<le> P" "P \<le> 10.0" "0.0 \<le> t0" "t0 \<le> 1.0"
    and "A = 0.1 \<or> A = 100.0 \<or> B = 10.0 \<or> B = - 10.0 \<or>
         P = 0.3 \<or> P = 10.0 \<or> t0 = 0.0 \<or> t0 = 1.0"
  shows "log_prior [A, B, P, t0] = Inr (Fin 0.0) \<and> log_prior_A [A, B, P, t0] = Inr (Fin 0.0)"
  using assms(1-8) by (simp add: abs_le_iff not_less)

theorem prior_boundary_inclusive_witness:
  "log_prior [0.1, - 10.0, 10.0, 1.0] = Inr (Fin 0.0) \<and>
   log_prior_A [0.1, - 10.0, 10.0, 1.0] = Inr (Fin 0.0) \<and>
   log_prior [100.0, 10.0, 0.3, 0.0] = Inr (Fin 0.0) \<and>
   log_prior_A [100.0, 10.0, 0.3, 0.0] = Inr (Fin 0.0)"
  using prior_boundary_inclusive [of "0.1" "- 10.0" "10.0" "1.0"]
    prior_boundary_inclusive [of "100.0" "10.0" "0.3" "0.0"]
  by simp

section \<open>The constant model\<close>

text \<open>
  Claim C10. The constant-offset model does not depend on time: \<open>model_B [B] t\<close> is \<open>B\<close>
  for every time \<open>t\<close>, and over a sequence of times it is a sequence of the same length
  with every element \<open>B\<close>.
\<close>

theorem model_B_constant:
  "model_B [B] t = Inr B \<and>
   model_B_vec [B] ts = Inr (replicate (length ts) B)"
  by (induction ts) simp_all

section \<open>Vectorisation of the models\<close>

text \<open>
  Claim C4. Applied to a sequence of \<open>N\<close> times, each model returns a sequence of length
  \<open>N\<close> whose \<open>i\<close>-th element is the model's value at the \<open>i\<close>-th time: the array
  operations of the source compute, element by element and in order, what the scalar
  expression computes. The parameter vector has the model's length, and the period of the
  sinusoidal model is not zero.
\<close>

theorem models_vectorise:
  assumes "length pA = 4" and "pA ! 2 \<noteq> 0" and "length pB = 1"
  shows "(\<exists>ys. sine_model_vec pA ts = Inr ys \<and> length ys = length ts \<and>
            (\<forall>i<length ts. sine_model pA (ts ! i) = Inr (ys ! i))) \<and>
         (\<exists>ys. model_A_vec pA ts = Inr ys \<and> length ys = length ts \<and>
            (\<forall>i<length ts. model_A pA (ts ! i) = Inr (ys ! i))) \<and>
         (\<exists>ys. model_B_vec pB ts = Inr ys \<and> length ys = length ts \<and>
            (\<forall>i<length ts. model_B pB (ts ! i) = Inr (ys ! i)))"
proof -
  from assms(1) obtain A B P t0 where pA: "pA = [A, B, P, t0]"
    by (auto simp: length_four_shape)
  from assms(3) obtain B' where pB: "pB = [B']"
    by (cases pB) auto
  have P: "P \<noteq> 0" using assms(2) pA by simp
  have "\<exists>ys. sine_model_vec pA ts = Inr ys"
    using P by (simp add: pA elementwise_fdiv)
  then obtain ys1 where v1: "sine_model_vec pA ts = Inr ys1" ..
  then have "elementwise (sine_model pA) ts = Inr ys1"
    by (simp only: pA sine_model_vec_elementwise)
  from elementwise_Inr_D [OF this] v1 have c1:
    "\<exists>ys. sine_model_vec pA ts = Inr ys \<and> length ys = length ts \<and>
            (\<forall>i<length ts. sine_model pA (ts ! i) = Inr (ys ! i))"
    by blast
  have "\<exists>ys. model_A_vec pA ts = Inr ys"
    using P by (simp add: pA elementwise_fdiv)
  then obtain ys2 where v2: "model_A_vec pA ts = Inr ys2" ..
  then have "elementwise (model_A pA) ts = Inr ys2"
    by (simp only: pA model_A_vec_elementwise)
  from elementwise_Inr_D [OF this] v2 have c2:
    "\<exists>ys. model_A_vec pA ts = Inr ys \<and> length ys = length ts \<and>
            (\<forall>i<length ts. model_A pA (ts ! i) = Inr (ys ! i))"
    by blast
  have "\<exists>ys. model_B_vec pB ts = Inr ys"
    by (simp add: pB)
  then obtain ys3 where v3: "model_B_vec pB ts = Inr ys3" ..
  then have "elementwise (model_B pB) ts = Inr ys3"
    by (simp only: pB model_B_vec_elementwise)
  from elementwise_Inr_D [OF this] v3 have c3:
    "\<exists>ys. model_B_vec pB ts = Inr ys \<and> length ys = length ts \<and>
            (\<forall>i<length ts. model_B pB (ts ! i) = Inr (ys ! i))"
    by blast
  from c1 c2 c3 show ?thesis by blast
qed

theorem models_vectorise_witness:
  "sine_model_vec [1, 1, 3, 0] [0, 3, 0.75] = Inr [1, 1, 2] \<and>
   model_A_vec [1, 1, 3, 0] [0, 3, 0.75] = Inr [1, 1, 2] \<and>
   model_B_vec [4] [0, 3, 0.75] = Inr [4, 4, 4] \<and>
   sine_model [1, 1, 3, 0] 0.75 = Inr 2 \<and> model_A [1, 1, 3, 0] 0.75 = Inr 2 \<and>
   model_B [4] 0.75 = Inr 4"
  using models_vectorise [of "[1, 1, 3, 0]" "[4]" "[0, 3, 0.75]"]
  by (simp add: fdiv_def)

section \<open>The likelihoods\<close>

text \<open>
  Claim C3. Each likelihood returns exactly \<open>-0.5\<close> times the sum, over all observations,
  of the square of (the model's prediction at the observation's time minus the observed
  value) divided by the noise level; nothing else enters the result. The observation set
  is well formed (as many values as times, a noise level other than zero), and the period
  of the sinusoidal model is not zero, so that every division is one of real numbers.
\<close>

theorem likelihood_formula:
  assumes "length pA = 4" and "pA ! 2 \<noteq> 0" and "length pB = 1"
    and "length (obs_t obs) = length (obs_y obs)" and "obs_yerr obs \<noteq> 0"
  shows "(\<exists>m. elementwise (sine_model pA) (obs_t obs) = Inr m \<and>
            log_like obs pA =
              Inr (Fin (- 0.5 * (\<Sum>i<length (obs_t obs).
                                   ((m ! i - obs_y obs ! i) / obs_yerr obs) ^ 2)))) \<and>
         (\<exists>m. elementwise (model_A pA) (obs_t obs) = Inr m \<and>
            log_like_A obs pA =
              Inr (Fin (- 0.5 * (\<Sum>i<length (obs_t obs).
                                   ((m ! i - obs_y obs ! i) / obs_yerr obs) ^ 2)))) \<and>
         (\<exists>m. elementwise (model_B pB) (obs_t obs) = Inr m \<and>
            log_like_B obs pB =
              Inr (Fin (- 0.5 * (\<Sum>i<length (obs_t obs).
                                   ((m ! i - obs_y obs ! i) / obs_yerr obs) ^ 2))))"
proof -
  from assms(1) obtain A B P t0 where pA: "pA = [A, B, P, t0]"
    by (auto simp: length_four_shape)
  from assms(3) obtain B' where pB: "pB = [B']"
    by (cases pB) auto
  have P: "P \<noteq> 0" using assms(2) pA by simp
  have sine: "\<exists>m. elementwise (sine_model pA) (obs_t obs) = Inr m \<and>
            log_like obs pA =
              Inr (Fin (- 0.5 * (\<Sum>i<length (obs_t obs).
                                   ((m ! i - obs_y obs ! i) / obs_yerr obs) ^ 2)))"
  proof -
    obtain m where m: "sine_model_vec pA (obs_t obs) = Inr m"
      using P by (auto simp: pA elementwise_fdiv)
    then have el: "elementwise (sine_model pA) (obs_t obs) = Inr m"
      by (simp only: pA sine_model_vec_elementwise)
    then have len: "length m = length (obs_t obs)"
      by (simp add: elementwise_Inr_D)
    show ?thesis
      using el m len gauss_loglike_value [of m obs] assms(4,5)
      by (simp add: log_like_def)
  qed
  have modA: "\<exists>m. elementwise (model_A pA) (obs_t obs) = Inr m \<and>
            log_like_A obs pA =
              Inr (Fin (- 0.5 * (\<Sum>i<length (obs_t obs).
                                   ((m ! i - obs_y obs ! i) / obs_yerr obs) ^ 2)))"
  proof -
    obtain m where m: "model_A_vec pA (obs_t obs) = Inr m"
      using P by (auto simp: pA elementwise_fdiv)
    then have el: "elementwise (model_A pA) (obs_t obs) = Inr m"
      by (simp only: pA model_A_vec_elementwise)
    then have len: "length m = length (obs_t obs)"
      by (simp add: elementwise_Inr_D)
    show ?thesis
      using el m len gauss_loglike_value [of m obs] assms(4,5)
      by (simp add: log_like_A_def)
  qed
  have modB: "\<exists>m. elementwise (model_B pB) (obs_t obs) = Inr m \<and>
            log_like_B obs pB =
              Inr (Fin (- 0.5 * (\<Sum>i<length (obs_t obs).
                                   ((m ! i - obs_y obs ! i) / obs_yerr obs) ^ 2)))"
  proof -
    obtain m where m: "model_B_vec pB (obs_t obs) = Inr m"
      by (auto simp: pB)
    then have el: "elementwise (model_B pB) (obs_t obs) = Inr m"
      by (simp only: pB model_B_vec_elementwise)
    then have len: "length m = length (obs_t obs)"
      by (simp add: elementwise_Inr_D)
    show ?thesis
      using el m len gauss_loglike_value [of m obs] assms(4,5)
      by (simp add: log_like_B_def)
  qed
  from sine modA modB show ?thesis by blast
qed

theorem likelihood_formula_witness:
  "log_like \<lparr>obs_t = [0, 3], obs_y = [3, 2], obs_yerr = 2\<rparr> [1, 1, 3, 0] = Inr (Fin (- 5 / 8)) \<and>
   log_like_A \<lparr>obs_t = [0, 3], obs_y = [3, 2], obs_yerr = 2\<rparr> [1, 1, 3, 0] = Inr (Fin (- 5 / 8)) \<and>
   log_like_B \<lparr>obs_t = [0, 3], obs_y = [3, 2], obs_yerr = 2\<rparr> [4] = Inr (Fin (- 5 / 8))"
  using likelihood_formula [of "[1, 1, 3, 0]" "[4]" "\<lparr>obs_t = [0, 3], obs_y = [3, 2], obs_yerr = 2\<rparr>"]
  by (simp add: fdiv_def lessThan_Suc numeral_2_eq_2)

section \<open>The posterior\<close>

text \<open>
  Claim C2. On every parameter vector of four reals, \<open>log_post\<close> returns negative infinity
  when \<open>log_prior\<close> does, whatever the observation set is, also one on which the
  likelihood would fail: the likelihood is not evaluated. When \<open>log_prior\<close> is finite,
  \<open>log_post\<close> returns the sum of the prior and the likelihood, and a failure of the
  likelihood is the failure of \<open>log_post\<close>.
\<close>

theorem log_post_short_circuit:
  assumes "length params = 4"
  shows "(log_prior params = Inr NegInf \<and> log_post obs params = Inr NegInf) \<or>
         (\<exists>p. log_prior params = Inr (Fin p) \<and>
            ((\<exists>l. log_like obs params = Inr (Fin l) \<and> log_post obs params = Inr (Fin (p + l))) \<or>
             (\<exists>e. log_like obs params = Inl e \<and> log_post obs params = Inl e)))"
proof -
  from assms obtain A B P t0 where ps: "params = [A, B, P, t0]"
    by (auto simp: length_four_shape)
  have "\<exists>lp. log_prior params = Inr lp"
    by (simp add: ps)
  then obtain lp where lp: "log_prior params = Inr lp" ..
  show ?thesis
  proof (cases lp)
    case NegInf
    then show ?thesis using lp by (simp add: log_post_def)
  next
    case (Fin p)
    show ?thesis
    proof (cases "log_like obs params")
      case (Inl e)
      then show ?thesis using lp Fin by (simp add: log_post_def)
    next
      case (Inr ll)
      then obtain l where "ll = Fin l"
        by (auto simp: log_like_def dest: gauss_loglike_nonpos split: sum.splits)
      then show ?thesis using lp Fin Inr by (simp add: log_post_def)
    qed
  qed
qed

theorem log_post_short_circuit_witness:
  "log_post \<lparr>obs_t = [0, 3], obs_y = [3, 2], obs_yerr = 2\<rparr> [1, 1, 3, 0] = Inr (Fin (- 5 / 8)) \<and>
   log_like \<lparr>obs_t = [0, 3], obs_y = [3, 2, 1], obs_yerr = 2\<rparr> [1, 11, 3, 0] = Inl ValueError \<and>
   log_post \<lparr>obs_t = [0, 3], obs_y = [3, 2, 1], obs_yerr = 2\<rparr> [1, 11, 3, 0] = Inr NegInf"
  using log_post_short_circuit [of "[1, 1, 3, 0]" "\<lparr>obs_t = [0, 3], obs_y = [3, 2], obs_yerr = 2\<rparr>"]
    log_post_short_circuit [of "[1, 11, 3, 0]" "\<lparr>obs_t = [0, 3], obs_y = [3, 2, 1], obs_yerr = 2\<rparr>"]
  by (simp add: log_like_def gauss_loglike_def np_sub_def fdiv_def power2_eq_square)

section \<open>The posterior is never positive\<close>

text \<open>
  Claim C9. On every parameter vector of four reals and every well-formed observation
  set, \<open>log_post\<close> returns negative infinity or a real number that is at most zero.
\<close>

theorem log_post_nonpositive:
  assumes "length params = 4"
    and "length (obs_t obs) = length (obs_y obs)" and "obs_yerr obs \<noteq> 0"
  shows "log_post obs params = Inr NegInf \<or>
         (\<exists>v. v \<le> 0 \<and> log_post obs params = Inr (Fin v))"
proof -
  from assms(1) obtain A B P t0 where ps: "params = [A, B, P, t0]"
    by (auto simp: length_four_shape)
  show ?thesis
  proof (cases "log_prior params = Inr NegInf")
    case True
    then show ?thesis by (simp add: log_post_def)
  next
    case False
    then have lp: "log_prior params = Inr (Fin 0)" and P: "P \<noteq> 0"
      by (auto simp: ps split: if_splits)
    have "elementwise (\<lambda>x. fdiv x P) (obs_t obs) = Inr (map (\<lambda>x. x / P) (obs_t obs))"
      using P by (rule elementwise_fdiv)
    then obtain m where m: "sine_model_vec params (obs_t obs) = Inr m"
      and len: "length m = length (obs_t obs)"
      by (simp add: ps)
    have "\<exists>r. gauss_loglike obs m = Inr r"
      using gauss_loglike_value [of m obs] len assms(2,3) by simp
    then obtain r where r: "gauss_loglike obs m = Inr r" ..
    then obtain v where v: "v \<le> 0" "r = Fin v"
      using gauss_loglike_nonpos by blast
    have "log_post obs params = Inr (Fin v)"
      using lp m r v by (simp add: log_post_def log_like_def)
    then show ?thesis using v by blast
  qed
qed

theorem log_post_nonpositive_witness:
  "log_post \<lparr>obs_t = [0, 3], obs_y = [3, 2], obs_yerr = 2\<rparr> [1, 1, 3, 0] = Inr (Fin (- 5 / 8)) \<and>
   log_post \<lparr>obs_t = [0, 3], obs_y = [3, 2], obs_yerr = 2\<rparr> [1, 1, 30, 0] = Inr NegInf"
  using log_post_nonpositive [of "[1, 1, 3, 0]" "\<lparr>obs_t = [0, 3], obs_y = [3, 2], obs_yerr = 2\<rparr>"]
    log_post_nonpositive [of "[1, 1, 30, 0]" "\<lparr>obs_t = [0, 3], obs_y = [3, 2], obs_yerr = 2\<rparr>"]
  by (simp add: log_post_def log_like_def gauss_loglike_def np_sub_def fdiv_def power2_eq_square)

section \<open>Seeding and counts of the data cell\<close>

text \<open>
  Claim C5. Two runs of the data cell with the same seed, count, time domain,
  ground-truth parameters and noise level produce the same observation set, element for
  element, whatever state the global generator was in before each run: the cell seeds
  the generator before it draws.
\<close>

theorem generator_deterministic:
  "data_generator L model seed n_data low high params_true yerr s0 =
     data_generator L model seed n_data low high params_true yerr s0' \<and>
   arianna_data L s0 = arianna_data L s0' \<and>
   zeus_data L s0 = zeus_data L s0'"
  by (simp add: arianna_data_def zeus_data_def data_generator_def np_seed_def)

text \<open>
  Claim C6, as stated, fails for the count zero: the cell has no check of its own, and
  NumPy returns empty arrays there, so an empty observation set is produced without an
  error.
\<close>

theorem generator_zero_count:
  "data_generator lcg model_A_vec 42 0 0 5 [1.0, 1.0, 3.0, 0.0] 1.0 0 =
     Inr (\<lparr>obs_t = [], obs_y = [], obs_yerr = 1.0\<rparr>, 42)"
  by (simp add: data_generator_def np_seed_def np_uniform_def np_normal_def lcg_def
      lcg_seeded_def)

text \<open>
  Claim C6, amended. For every negative count the data cell fails with NumPy's
  \<open>ValueError\<close>, before any observation exists; for every count that is zero or positive,
  and a seed that NumPy accepts (from \<open>0\<close> to \<open>2^32 - 1\<close>, as the notebooks' \<open>42\<close>), it
  succeeds and produces that many times and values (zero of them for the count zero). A
  seed outside that range makes the cell fail with \<open>ValueError\<close> at the seeding, whatever
  the count. The ground-truth vector has four components with a period other than zero,
  so that the predictions are real numbers, and the noise level is not negative.
\<close>

theorem generator_counts:
  assumes "length params_true = 4" and "params_true ! 2 \<noteq> 0" and "0 \<le> yerr"
  shows "(n < 0 \<longrightarrow>
            data_generator L model_A_vec seed n low high params_true yerr s0 = Inl ValueError \<and>
            data_generator L sine_model_vec seed n low high params_true yerr s0 = Inl ValueError) \<and>
         (0 \<le> n \<and> 0 \<le> seed \<and> seed \<le> 2 ^ 32 - 1 \<longrightarrow>
            (\<exists>obs s. data_generator L model_A_vec seed n low high params_true yerr s0 = Inr (obs, s) \<and>
               length (obs_t obs) = nat n \<and> length (obs_y obs) = nat n) \<and>
            (\<exists>obs s. data_generator L sine_model_vec seed n low high params_true yerr s0 = Inr (obs, s) \<and>
               length (obs_t obs) = nat n \<and> length (obs_y obs) = nat n)) \<and>
         (seed < 0 \<or> seed > 2 ^ 32 - 1 \<longrightarrow>
            data_generator L model_A_vec seed n low high params_true yerr s0 = Inl ValueError \<and>
            data_generator L sine_model_vec seed n low high params_true yerr s0 = Inl ValueError)"
proof -
  from assms(1) obtain A B P t0 where ps: "params_true = [A, B, P, t0]"
    by (auto simp: length_four_shape)
  have P: "P \<noteq> 0" using assms(2) ps by simp
  have okA: "\<And>ts. \<exists>m. model_A_vec params_true ts = Inr m \<and> length m = length ts"
    using model_vec_ok [OF P] unfolding ps by blast
  have okS: "\<And>ts. \<exists>m. sine_model_vec params_true ts = Inr m \<and> length m = length ts"
    using model_vec_ok [OF P] unfolding ps by blast
  have neg: "n < 0 \<longrightarrow>
            data_generator L model_A_vec seed n low high params_true yerr s0 = Inl ValueError \<and>
            data_generator L sine_model_vec seed n low high params_true yerr s0 = Inl ValueError"
    by (simp add: data_generator_negative)
  have bad: "seed < 0 \<or> seed > 2 ^ 32 - 1 \<longrightarrow>
            data_generator L model_A_vec seed n low high params_true yerr s0 = Inl ValueError \<and>
            data_generator L sine_model_vec seed n low high params_true yerr s0 = Inl ValueError"
  proof
    assume "seed < 0 \<or> seed > 2 ^ 32 - 1"
    then have "seed < 0 \<or> 2 ^ 32 \<le> seed" by auto
    then show "data_generator L model_A_vec seed n low high params_true yerr s0 = Inl ValueError \<and>
            data_generator L sine_model_vec seed n low high params_true yerr s0 = Inl ValueError"
      by (simp add: data_generator_bad_seed)
  qed
  have good: "0 \<le> n \<and> 0 \<le> seed \<and> seed \<le> 2 ^ 32 - 1 \<longrightarrow>
            (\<exists>obs s. data_generator L model_A_vec seed n low high params_true yerr s0 = Inr (obs, s) \<and>
               length (obs_t obs) = nat n \<and> length (obs_y obs) = nat n) \<and>
            (\<exists>obs s. data_generator L sine_model_vec seed n low high params_true yerr s0 = Inr (obs, s) \<and>
               length (obs_t obs) = nat n \<and> length (obs_y obs) = nat n)"
  proof
    assume h: "0 \<le> n \<and> 0 \<le> seed \<and> seed \<le> 2 ^ 32 - 1"
    then have n: "0 \<le> n" and s1: "0 \<le> seed" and s2: "seed < 2 ^ 32"
      by auto
    have a: "\<exists>obs s. data_generator L model_A_vec seed n low high params_true yerr s0 = Inr (obs, s) \<and>
               length (obs_t obs) = nat n \<and> length (obs_y obs) = nat n"
      using data_generator_ok [where model = model_A_vec and ps = params_true and L = L
          and low = low and high = high and ?s0.0 = s0, OF n assms(3) okA s1 s2]
      by blast
    have b: "\<exists>obs s. data_generator L sine_model_vec seed n low high params_true yerr s0 = Inr (obs, s) \<and>
               length (obs_t obs) = nat n \<and> length (obs_y obs) = nat n"
      using data_generator_ok [where model = sine_model_vec and ps = params_true and L = L
          and low = low and high = high and ?s0.0 = s0, OF n assms(3) okS s1 s2]
      by blast
    from a b show "(\<exists>obs s. data_generator L model_A_vec seed n low high params_true yerr s0 = Inr (obs, s) \<and>
               length (obs_t obs) = nat n \<and> length (obs_y obs) = nat n) \<and>
            (\<exists>obs s. data_generator L sine_model_vec seed n low high params_true yerr s0 = Inr (obs, s) \<and>
               length (obs_t obs) = nat n \<and> length (obs_y obs) = nat n)" ..
  qed
  from neg good bad show ?thesis by blast
qed

theorem generator_counts_witness:
  "data_generator lcg model_A_vec 42 (- 1) 0 5 [1.0, 1.0, 3.0, 0.0] 1.0 0 = Inl ValueError \<and>
   data_generator lcg sine_model_vec 42 (- 1) 0 5 [4.3, 1.0, 3.1, 0.4] 1.0 0 = Inl ValueError \<and>
   (\<exists>obs s. data_generator lcg model_A_vec 42 50 0 5 [1.0, 1.0, 3.0, 0.0] 1.0 0 = Inr (obs, s) \<and>
      length (obs_t obs) = 50 \<and> length (obs_y obs) = 50) \<and>
   (\<exists>obs s. data_generator lcg sine_model_vec 42 50 0 5 [4.3, 1.0, 3.1, 0.4] 1.0 0 = Inr (obs, s) \<and>
      length (obs_t obs) = 50 \<and> length (obs_y obs) = 50) \<and>
   data_generator lcg model_A_vec (- 1) 50 0 5 [1.0, 1.0, 3.0, 0.0] 1.0 0 = Inl ValueError \<and>
   data_generator lcg sine_model_vec (2 ^ 32) 50 0 5 [4.3, 1.0, 3.1, 0.4] 1.0 0 = Inl ValueError"
  using generator_counts [of "[1.0, 1.0, 3.0, 0.0]" "1.0" "- 1" lcg 42 0 5 0]
    generator_counts [of "[4.3, 1.0, 3.1, 0.4]" "1.0" "- 1" lcg 42 0 5 0]
    generator_counts [of "[1.0, 1.0, 3.0, 0.0]" "1.0" 50 lcg 42 0 5 0]
    generator_counts [of "[4.3, 1.0, 3.1, 0.4]" "1.0" 50 lcg 42 0 5 0]
    generator_counts [of "[1.0, 1.0, 3.0, 0.0]" "1.0" 50 lcg "- 1" 0 5 0]
    generator_counts [of "[4.3, 1.0, 3.1, 0.4]" "1.0" 50 lcg "2 ^ 32" 0 5 0]
  by simp

end
